theory Spec2Isabelle
  imports Main
begin

section \<open>The contract registry of safe-react (src/logic/contracts/safeContracts.ts)\<close>

text \<open>
  A shallow embedding of the module \<^verbatim>\<open>safeContracts.ts\<close>. Exceptions are values of
  \<open>js_exception + 'a\<close> (\<open>Inl\<close> is a throw, or the rejection of the promise of an
  \<^verbatim>\<open>async\<close> function); a JavaScript value of type \<^verbatim>\<open>T | undefined\<close> is a
  \<open>T option\<close>; the module-level \<^verbatim>\<open>let\<close> variables are a record that is passed in
  and returned; everything the module imports from other modules and libraries is a
  field of the record \<open>env\<close>.
\<close>

subsection \<open>Exceptions\<close>

text \<open>
  The only member of a caught value the module ever touches is \<^verbatim>\<open>e.log\<close>
  (line 220). An exception therefore carries its name, its message and what calling
  its \<^verbatim>\<open>log\<close> member does: the member is missing or not callable, the call
  returns, or the call throws.
\<close>

datatype 'e log_member = NoLogMethod | LogReturns | LogThrows 'e

datatype js_exception =
  Exception (exn_name: string) (message: string) (log: "js_exception log_member")

text \<open>\<^verbatim>\<open>new Error(msg)\<close>, and the TypeError the runtime raises; neither has a \<^verbatim>\<open>log\<close>.\<close>

definition Error :: "string \<Rightarrow> js_exception" where
  "Error msg = Exception ''Error'' msg NoLogMethod"

definition TypeError :: "string \<Rightarrow> js_exception" where
  "TypeError msg = Exception ''TypeError'' msg NoLogMethod"

text \<open>Reading member \<open>m\<close> of \<^verbatim>\<open>undefined\<close> (the message is V8's).\<close>

definition read_of_undefined :: "string \<Rightarrow> js_exception" where
  "read_of_undefined m =
     TypeError (''Cannot read properties of undefined (reading '' @ [CHR 0x27] @ m @ [CHR 0x27] @ '')'')"

text \<open>Truthiness of a value of type \<^verbatim>\<open>string | undefined\<close>: \<^verbatim>\<open>!v\<close> holds for
  \<^verbatim>\<open>undefined\<close> and for the empty string.\<close>

definition falsy :: "string option \<Rightarrow> bool" where
  "falsy v = (case v of None \<Rightarrow> True | Some s \<Rightarrow> s = [])"

subsection \<open>The address table (lines 27-54)\<close>

record ContractDeployment =
  MultiSend :: string
  CompatibilityFallbackHandler :: string
  GnosisSafeProxyFactory :: string
  GnosisSafeL2 :: string
  SignMessageLib :: string

text \<open>The object literal, as the list of its own properties in source order.\<close>

definition contracts :: "(string \<times> ContractDeployment) list" where
  "contracts =
     [(''57'',
       \<lparr>MultiSend = ''0x09645f834D432C0548B6c75F0cD4BEa2fCAac2Bd'',
        CompatibilityFallbackHandler = ''0xC397b8918a64f06b0dFba1653eCcE9fD68387326'',
        GnosisSafeProxyFactory = ''0x111dE2B36368ddDA41CCB0E335eb4a59A3750A1B'',
        GnosisSafeL2 = ''0x7e1eaA0f4BBDD5501dAb7542B405Ab7fc343105F'',
        SignMessageLib = ''0x90305FB725E56e042E8f4078e85e02408cA5D4E0''\<rparr>),
      (''5700'',
       \<lparr>MultiSend = ''0xe3e0CBe5CD22A111EB032C14D052838cd2d4eA07'',
        CompatibilityFallbackHandler = ''0x41279A031F6A7C42188a006746E0BAfA6d9cB343'',
        GnosisSafeProxyFactory = ''0x25622d7aB63452822B45B0bfa79e7D2be6b1aE04'',
        GnosisSafeL2 = ''0x84C2130B89b080aC92b99d988480f63955BCA09A'',
        SignMessageLib = ''0x6586e66ceFaa4961361bAE42EB2c70d89220A576''\<rparr>)]"

text \<open>
  \<^verbatim>\<open>contracts\<close> is a plain object, so \<^verbatim>\<open>contracts[chainId]\<close> also finds what the
  object inherits from \<^verbatim>\<open>Object.prototype\<close>: a function or an object that has none
  of the five address members. Any other key yields \<^verbatim>\<open>undefined\<close>.
\<close>

definition Object_prototype :: "string list" where
  "Object_prototype =
     [''constructor'', ''hasOwnProperty'', ''isPrototypeOf'', ''propertyIsEnumerable'',
      ''toLocaleString'', ''toString'', ''valueOf'', ''__proto__'',
      ''__defineGetter__'', ''__defineSetter__'', ''__lookupGetter__'', ''__lookupSetter__'']"

datatype table_entry = Undefined | Deployment ContractDeployment | Inherited

definition contracts_at :: "string \<Rightarrow> table_entry" where
  "contracts_at chainId =
     (case map_of contracts chainId of
        Some d \<Rightarrow> Deployment d
      | None \<Rightarrow> if chainId \<in> set Object_prototype then Inherited else Undefined)"

text \<open>\<^verbatim>\<open>entry.member\<close>: a TypeError on \<^verbatim>\<open>undefined\<close>, \<^verbatim>\<open>undefined\<close> on an
  inherited function or object, the address on a deployment record.\<close>

fun member_of :: "table_entry \<Rightarrow> (ContractDeployment \<Rightarrow> string) \<Rightarrow> string \<Rightarrow> js_exception + string option" where
  "member_of Undefined sel m = Inl (read_of_undefined m)"
| "member_of Inherited sel m = Inr None"
| "member_of (Deployment d) sel m = Inr (Some (sel d))"

subsection \<open>Contract handles and the web3 instance\<close>

datatype abi =
  GnosisSafeL2ABI | ProxyFactoryABI | FallBackHandlerABI | MultiSendDeploymentABI | SignMessageLibABI

text \<open>A handle as the module sees it: the interface it was built from and
  \<^verbatim>\<open>options.address\<close>.\<close>

record contract =
  jsonInterface :: abi
  options_address :: string

text \<open>\<^verbatim>\<open>new web3.eth.Contract(abi, address)\<close> belongs to the web3 library: the
  constructor is a field of the instance, and it may throw.\<close>

record web3 =
  eth_Contract :: "abi \<Rightarrow> string \<Rightarrow> js_exception + contract"

subsection \<open>The lookup functions (lines 93-209)\<close>

definition getGnosisSafeContractInstance :: "web3 \<Rightarrow> string \<Rightarrow> js_exception + contract" where
  "getGnosisSafeContractInstance w chainId =
     (case member_of (contracts_at chainId) GnosisSafeL2 ''GnosisSafeL2'' of
        Inl e \<Rightarrow> Inl e
      | Inr contractAddress \<Rightarrow>
          if falsy contractAddress
          then Inl (Error (''GnosisSafe contract not found for chainId: '' @ chainId))
          else eth_Contract w GnosisSafeL2ABI (the contractAddress))"

definition getProxyFactoryContractInstance :: "web3 \<Rightarrow> string \<Rightarrow> js_exception + contract" where
  "getProxyFactoryContractInstance w chainId =
     (case member_of (contracts_at chainId) GnosisSafeProxyFactory ''GnosisSafeProxyFactory'' of
        Inl e \<Rightarrow> Inl e
      | Inr contractAddress \<Rightarrow>
          if falsy contractAddress
          then Inl (Error (''GnosisSafeProxyFactory contract not found for chainId: '' @ chainId))
          else eth_Contract w ProxyFactoryABI (the contractAddress))"

definition getFallbackHandlerContractInstance :: "web3 \<Rightarrow> string \<Rightarrow> js_exception + contract" where
  "getFallbackHandlerContractInstance w chainId =
     (case member_of (contracts_at chainId) CompatibilityFallbackHandler ''CompatibilityFallbackHandler'' of
        Inl e \<Rightarrow> Inl e
      | Inr contractAddress \<Rightarrow>
          if falsy contractAddress
          then Inl (Error (''FallbackHandler contract not found for chainId: '' @ chainId))
          else eth_Contract w FallBackHandlerABI (the contractAddress))"

definition getMultiSendContractInstance :: "web3 \<Rightarrow> string \<Rightarrow> js_exception + contract" where
  "getMultiSendContractInstance w chainId =
     (case member_of (contracts_at chainId) MultiSend ''MultiSend'' of
        Inl e \<Rightarrow> Inl e
      | Inr contractAddress \<Rightarrow>
          if falsy contractAddress
          then Inl (Error (''MultiSend contract not found for chainId: '' @ chainId))
          else eth_Contract w MultiSendDeploymentABI (the contractAddress))"

text \<open>The declared result type is \<^verbatim>\<open>string | undefined\<close>.\<close>

definition getSignMessageLibAddress :: "string \<Rightarrow> js_exception + string option" where
  "getSignMessageLibAddress chainId =
     (case member_of (contracts_at chainId) SignMessageLib ''SignMessageLib'' of
        Inl e \<Rightarrow> Inl e
      | Inr contractAddress \<Rightarrow>
          if falsy contractAddress
          then Inl (Error (''SignMessageLib contract not found for chainId: '' @ chainId))
          else Inr contractAddress)"

definition getSignMessageLibContractInstance :: "web3 \<Rightarrow> string \<Rightarrow> js_exception + contract" where
  "getSignMessageLibContractInstance w chainId =
     (case member_of (contracts_at chainId) SignMessageLib ''SignMessageLib'' of
        Inl e \<Rightarrow> Inl e
      | Inr contractAddress \<Rightarrow>
          if falsy contractAddress
          then Inl (Error (''SignMessageLib contract not found for chainId: '' @ chainId))
          else eth_Contract w SignMessageLibABI (the contractAddress))"

subsection \<open>What the module imports\<close>

text \<open>
  \<^verbatim>\<open>getChainById(id).l2\<close> is the only member of a chain's configuration the module
  reads; \<^verbatim>\<open>res.implementation.value\<close> is the only part of a Safe's information.
\<close>

record ChainInfo =
  l2 :: bool

record AddressEx =
  value' :: string

record SafeInfo =
  implementation :: AddressEx

text \<open>The two getters of the safe-deployments package, and the filter they take
  (\<^verbatim>\<open>network\<close> is optional).\<close>

datatype getter = getSafeSingletonDeployment | getSafeL2SingletonDeployment

record deployment_filter =
  version :: string
  network :: "string option"

text \<open>What a getter finds: a record of the package, of which the module only passes
  on the whole.\<close>

record SingletonDeployment =
  contractName :: string
  released_version :: string
  defaultAddress :: string

text \<open>The transaction objects of web3: \<^verbatim>\<open>handle.methods.name(args)\<close>.\<close>

datatype tx_object =
    setup' contract "string list" int string string string string int string
  | createProxyWithNonce contract string string int

text \<open>The argument of \<^verbatim>\<open>calculateGasOf\<close>.\<close>

record tx_params =
  data :: string
  from' :: string
  to :: string

text \<open>
  The imports, none of them part of this module: \<^verbatim>\<open>getWeb3\<close>, \<^verbatim>\<open>_getChainId\<close>
  and \<^verbatim>\<open>getChainById\<close> read the application's configuration;
  \<^verbatim>\<open>semverSatisfies\<close> is the semver package; \<open>getDeployment\<close> interprets the two
  getters of safe-deployments; \<^verbatim>\<open>getSafeInfo\<close> and
  \<^verbatim>\<open>calculateGasOf\<close> are asynchronous and may reject; \<^verbatim>\<open>encodeABI\<close> is web3's
  encoder of a transaction object and may throw; \<^verbatim>\<open>ZERO_ADDRESS\<close> and
  \<^verbatim>\<open>EMPTY_DATA\<close> are constants of the wallet modules. A gas amount is a whole number
  (web3 reports it as one), and doubling a whole number is exact in JavaScript's
  arithmetic as long as the result is finite.
\<close>

record env =
  getWeb3 :: web3
  getChainId :: string
  getChainById :: "string \<Rightarrow> ChainInfo"
  semverSatisfies :: "string \<Rightarrow> string \<Rightarrow> bool"
  getDeployment :: "getter \<Rightarrow> deployment_filter \<Rightarrow> SingletonDeployment option"
  getSafeInfo :: "string \<Rightarrow> js_exception + SafeInfo"
  calculateGasOf :: "tx_params \<Rightarrow> js_exception + int"
  encodeABI :: "tx_object \<Rightarrow> js_exception + string"
  ZERO_ADDRESS :: string
  EMPTY_DATA :: string

subsection \<open>getSafeContractDeployment (lines 61-86)\<close>

text \<open>
  The calls to the chosen getter are the only effect of the function; the model returns
  them, in the order they are made, beside the result. \<open>orElse\<close> is the short-circuit
  \<^verbatim>\<open>||\<close> on a result that is an object or \<^verbatim>\<open>undefined\<close>: the right operand is
  evaluated only when the left one is \<^verbatim>\<open>undefined\<close>.
\<close>

type_synonym lookup = "getter \<times> deployment_filter"

definition call :: "env \<Rightarrow> getter \<Rightarrow> deployment_filter \<Rightarrow> lookup list \<times> SingletonDeployment option" where
  "call env g f = ([(g, f)], getDeployment env g f)"

definition orElse ::
  "lookup list \<times> SingletonDeployment option \<Rightarrow> lookup list \<times> SingletonDeployment option
     \<Rightarrow> lookup list \<times> SingletonDeployment option" where
  "orElse a b = (case snd a of Some d \<Rightarrow> a | None \<Rightarrow> (fst a @ fst b, snd b))"

definition getSafeContractDeployment :: "env \<Rightarrow> string \<Rightarrow> lookup list \<times> SingletonDeployment option" where
  "getSafeContractDeployment env safeVersion =
     (let useOldestContractVersion = semverSatisfies env safeVersion ''<1.0.0'';
          networkId = getChainId env;
          chainConfig = getChainById env networkId;
          useL2ContractVersion = (l2 chainConfig \<and> semverSatisfies env safeVersion ''>=1.3.0'');
          g = (if useL2ContractVersion then getSafeL2SingletonDeployment else getSafeSingletonDeployment)
      in orElse (call env g \<lparr>version = safeVersion, network = Some networkId\<rparr>)
           (orElse (call env g \<lparr>version = safeVersion, network = None\<rparr>)
              (if useOldestContractVersion
               then call env g \<lparr>version = ''1.0.0'', network = None\<rparr>
               else ([], None))))"

subsection \<open>getMasterCopyAddressFromProxyAddress (lines 211-223)\<close>

text \<open>What the function writes to the console, and which exceptions it logged.\<close>

datatype event = console_error string | logged js_exception

text \<open>
  The result is the settled promise. In the \<^verbatim>\<open>try\<close> block only \<^verbatim>\<open>getSafeInfo\<close>
  can throw, its result being of the declared type. The handler calls \<^verbatim>\<open>e.log()\<close>:
  a TypeError when there is no such method, and whatever the method throws when it
  throws; neither is caught. When the handler completes, \<^verbatim>\<open>masterCopyAddress\<close> is
  still \<^verbatim>\<open>undefined\<close>.
\<close>

definition getMasterCopyAddressFromProxyAddress ::
  "env \<Rightarrow> string \<Rightarrow> event list \<times> (js_exception + string option)" where
  "getMasterCopyAddressFromProxyAddress env proxyAddress =
     (case getSafeInfo env proxyAddress of
        Inr res \<Rightarrow>
          (let masterCopyAddress = Some (value' (implementation res))
           in (if falsy masterCopyAddress
               then [console_error (''There was not possible to get masterCopy address from proxy ''
                                     @ proxyAddress @ ''.'')]
               else [],
               Inr masterCopyAddress))
      | Inl e \<Rightarrow>
          (case log e of
             NoLogMethod \<Rightarrow> ([], Inl (TypeError ''e.log is not a function''))
           | LogThrows e' \<Rightarrow> ([], Inl e')
           | LogReturns \<Rightarrow> ([logged e], Inr None)))"

subsection \<open>The cached handles (lines 56-59, 225-261)\<close>

text \<open>
  The four module-level variables, \<open>None\<close> while still unassigned. The record is
  extensible: its \<open>more\<close> part stands for the rest of the program's state.
\<close>

record handles =
  proxyFactoryMaster :: "contract option"
  safeMaster :: "contract option"
  fallbackHandler :: "contract option"
  multiSend :: "contract option"

text \<open>Four assignments in sequence; a throw leaves the earlier ones done.\<close>

definition instantiateSafeContracts ::
  "env \<Rightarrow> 'a handles_scheme \<Rightarrow> 'a handles_scheme \<times> (js_exception + unit)" where
  "instantiateSafeContracts env s =
     (let w = getWeb3 env; chainId = getChainId env in
      case getProxyFactoryContractInstance w chainId of
        Inl e \<Rightarrow> (s, Inl e)
      | Inr pf \<Rightarrow>
          (let s1 = s\<lparr>proxyFactoryMaster := Some pf\<rparr> in
           case getGnosisSafeContractInstance w chainId of
             Inl e \<Rightarrow> (s1, Inl e)
           | Inr sm \<Rightarrow>
               (let s2 = s1\<lparr>safeMaster := Some sm\<rparr> in
                case getFallbackHandlerContractInstance w chainId of
                  Inl e \<Rightarrow> (s2, Inl e)
                | Inr fh \<Rightarrow>
                    (let s3 = s2\<lparr>fallbackHandler := Some fh\<rparr> in
                     case getMultiSendContractInstance w chainId of
                       Inl e \<Rightarrow> (s3, Inl e)
                     | Inr ms \<Rightarrow> (s3\<lparr>multiSend := Some ms\<rparr>, Inr ())))))"

definition getSafeMasterContract ::
  "env \<Rightarrow> 'a handles_scheme \<Rightarrow> 'a handles_scheme \<times> (js_exception + contract option)" where
  "getSafeMasterContract env s =
     (case instantiateSafeContracts env s of
        (s', Inl e) \<Rightarrow> (s', Inl e)
      | (s', Inr u) \<Rightarrow> (s', Inr (safeMaster s')))"

text \<open>
  The one thing the module reads from a handle is \<^verbatim>\<open>options.address\<close>, which web3
  derives from the address the handle was built with. \<open>reports_address w\<close> states that
  dependence for the instance \<open>w\<close> and the addresses that matter here: whenever \<open>w\<close>
  builds a GnosisSafeL2 handle for a GnosisSafeL2 address of the table, the handle
  reports that same address. It is a condition on the library, checked entry by entry
  over the table, and says nothing when the constructor throws.
\<close>

definition reports_address :: "web3 \<Rightarrow> bool" where
  "reports_address w =
     list_all (\<lambda>(chainId, d).
                 case eth_Contract w GnosisSafeL2ABI (GnosisSafeL2 d) of
                   Inl e \<Rightarrow> True
                 | Inr c \<Rightarrow> options_address c = GnosisSafeL2 d)
       contracts"

text \<open>
  The states the module can be in: all four variables unassigned at load, and
  \<^verbatim>\<open>instantiateSafeContracts\<close> the only code that assigns any of them. \<open>W\<close> holds of
  the web3 instances that \<^verbatim>\<open>getWeb3\<close> returned along the way.
\<close>

definition initial :: "'a \<Rightarrow> 'a handles_scheme" where
  "initial rest =
     \<lparr>proxyFactoryMaster = None, safeMaster = None, fallbackHandler = None, multiSend = None,
      \<dots> = rest\<rparr>"

inductive reachable :: "(web3 \<Rightarrow> bool) \<Rightarrow> 'a handles_scheme \<Rightarrow> bool" for W where
  at_load: "reachable W (initial rest)"
| instantiated:
    "reachable W s \<Longrightarrow> W (getWeb3 env) \<Longrightarrow> reachable W (fst (instantiateSafeContracts env s))"

subsection \<open>Deployment of a Safe (lines 263-296)\<close>

text \<open>
  Members are read in the order JavaScript evaluates them: \<^verbatim>\<open>safeMaster.methods\<close>,
  then the arguments of \<^verbatim>\<open>setup\<close> (among them \<^verbatim>\<open>fallbackHandler.options\<close>), then
  \<^verbatim>\<open>encodeABI\<close>, then \<^verbatim>\<open>proxyFactoryMaster.methods\<close>.
\<close>

definition getSafeDeploymentTransaction ::
  "env \<Rightarrow> 'a handles_scheme \<Rightarrow> string list \<Rightarrow> int \<Rightarrow> int \<Rightarrow> js_exception + tx_object" where
  "getSafeDeploymentTransaction env s safeAccounts numConfirmations safeCreationSalt =
     (case safeMaster s of
        None \<Rightarrow> Inl (read_of_undefined ''methods'')
      | Some sm \<Rightarrow>
          (case fallbackHandler s of
             None \<Rightarrow> Inl (read_of_undefined ''options'')
           | Some fh \<Rightarrow>
               (case encodeABI env
                       (setup' sm safeAccounts numConfirmations (ZERO_ADDRESS env) (EMPTY_DATA env)
                          (options_address fh) (ZERO_ADDRESS env) 0 (ZERO_ADDRESS env)) of
                  Inl e \<Rightarrow> Inl e
                | Inr gnosisSafeData \<Rightarrow>
                    (case proxyFactoryMaster s of
                       None \<Rightarrow> Inl (read_of_undefined ''methods'')
                     | Some pf \<Rightarrow>
                         Inr (createProxyWithNonce pf (options_address sm) gnosisSafeData
                                safeCreationSalt)))))"

text \<open>An \<^verbatim>\<open>async\<close> function: a throw in its body rejects the promise; the
  \<^verbatim>\<open>then\<close> callback runs only on the value \<^verbatim>\<open>calculateGasOf\<close> resolves to.\<close>

definition estimateGasForDeployingSafe ::
  "env \<Rightarrow> 'a handles_scheme \<Rightarrow> string list \<Rightarrow> int \<Rightarrow> string \<Rightarrow> int \<Rightarrow> js_exception + int" where
  "estimateGasForDeployingSafe env s safeAccounts numConfirmations userAccount safeCreationSalt =
     (case getSafeDeploymentTransaction env s safeAccounts numConfirmations safeCreationSalt of
        Inl e \<Rightarrow> Inl e
      | Inr tx \<Rightarrow>
          (case encodeABI env tx of
             Inl e \<Rightarrow> Inl e
           | Inr proxyFactoryData \<Rightarrow>
               (case proxyFactoryMaster s of
                  None \<Rightarrow> Inl (read_of_undefined ''options'')
                | Some pf \<Rightarrow>
                    (case calculateGasOf env
                            \<lparr>data = proxyFactoryData, from' = userAccount, to = options_address pf\<rparr> of
                       Inl e \<Rightarrow> Inl e
                     | Inr v \<Rightarrow> Inr (v * 2)))))"

subsection \<open>A sample environment\<close>

text \<open>
  One concrete environment, for evaluating the functions: a web3 whose constructor
  records the interface and the address it is given, chain 57 selected and marked as an
  L2 network, the two semver facts about versions 0.9.0 and 1.3.0, a package with one
  L2 deployment, a \<^verbatim>\<open>getSafeInfo\<close> that rejects with an exception that has a
  \<^verbatim>\<open>log\<close> method, and a raw gas estimate of 100000.
\<close>

definition sample_web3 :: web3 where
  "sample_web3 = \<lparr>eth_Contract = (\<lambda>a addr. Inr \<lparr>jsonInterface = a, options_address = addr\<rparr>)\<rparr>"

definition sample_deployment :: SingletonDeployment where
  "sample_deployment =
     \<lparr>contractName = ''GnosisSafeL2'', released_version = ''1.3.0'',
      defaultAddress = ''0x3E5c63644E683549055b9Be8653de26E0B4CD36E''\<rparr>"

definition sample_env :: env where
  "sample_env =
     \<lparr>getWeb3 = sample_web3,
      getChainId = ''57'',
      getChainById = (\<lambda>c. \<lparr>l2 = True\<rparr>),
      semverSatisfies = (\<lambda>v r. (v, r) \<in> set [(''0.9.0'', ''<1.0.0''), (''1.3.0'', ''>=1.3.0'')]),
      getDeployment = (\<lambda>g f. if g = getSafeL2SingletonDeployment \<and> version f = ''1.3.0'' \<and> network f = None
                                then Some sample_deployment else None),
      getSafeInfo = (\<lambda>a. Inl (Exception ''CodedException'' ''Code 605'' LogReturns)),
      calculateGasOf = (\<lambda>p. Inr 100000),
      encodeABI = (\<lambda>tx. Inr ''0x1688f0b9''),
      ZERO_ADDRESS = ''0x0000000000000000000000000000000000000000'',
      EMPTY_DATA = ''0x''\<rparr>"

text \<open>The handles this environment caches.\<close>

definition sample_handles :: handles where
  "sample_handles =
     \<lparr>proxyFactoryMaster =
        Some \<lparr>jsonInterface = ProxyFactoryABI,
              options_address = ''0x111dE2B36368ddDA41CCB0E335eb4a59A3750A1B''\<rparr>,
      safeMaster =
        Some \<lparr>jsonInterface = GnosisSafeL2ABI,
              options_address = ''0x7e1eaA0f4BBDD5501dAb7542B405Ab7fc343105F''\<rparr>,
      fallbackHandler =
        Some \<lparr>jsonInterface = FallBackHandlerABI,
              options_address = ''0xC397b8918a64f06b0dFba1653eCcE9fD68387326''\<rparr>,
      multiSend =
        Some \<lparr>jsonInterface = MultiSendDeploymentABI,
              options_address = ''0x09645f834D432C0548B6c75F0cD4BEa2fCAac2Bd''\<rparr>\<rparr>"

section \<open>The table and the lookups\<close>

lemma map_of_contracts_None:
  "map_of contracts chainId = None \<longleftrightarrow> chainId \<noteq> ''57'' \<and> chainId \<noteq> ''5700''"
  by (simp add: contracts_def)

lemma complete_record:
  "map_of contracts chainId = Some d \<Longrightarrow>
     MultiSend d \<noteq> [] \<and> CompatibilityFallbackHandler d \<noteq> [] \<and> GnosisSafeProxyFactory d \<noteq> [] \<and>
     GnosisSafeL2 d \<noteq> [] \<and> SignMessageLib d \<noteq> []"
  by (auto simp add: contracts_def split: if_splits)

lemma contracts_at_supported:
  "map_of contracts chainId = Some d \<Longrightarrow> contracts_at chainId = Deployment d"
  by (simp add: contracts_at_def)

lemma member_of_supported:
  "map_of contracts chainId = Some d \<Longrightarrow> member_of (contracts_at chainId) sel m = Inr (Some (sel d))"
  by (simp add: contracts_at_def)

lemma contracts_at_unsupported:
  "map_of contracts chainId = None \<Longrightarrow>
     contracts_at chainId = Undefined \<or> contracts_at chainId = Inherited"
  by (simp add: contracts_at_def)

lemma falsy_Some: "falsy (Some a) \<longleftrightarrow> a = []"
  by (simp add: falsy_def)

lemma falsy_None: "falsy None"
  by (simp add: falsy_def)

lemmas lookup_defs =
  getGnosisSafeContractInstance_def getProxyFactoryContractInstance_def
  getFallbackHandlerContractInstance_def getMultiSendContractInstance_def
  getSignMessageLibAddress_def getSignMessageLibContractInstance_def

text \<open>On a key of the table no lookup throws by itself: each hands the recorded
  address to the constructor, or returns it.\<close>

lemma lookups_supported:
  assumes "map_of contracts chainId = Some d"
  shows "getGnosisSafeContractInstance w chainId = eth_Contract w GnosisSafeL2ABI (GnosisSafeL2 d)"
    and "getProxyFactoryContractInstance w chainId = eth_Contract w ProxyFactoryABI (GnosisSafeProxyFactory d)"
    and "getFallbackHandlerContractInstance w chainId =
           eth_Contract w FallBackHandlerABI (CompatibilityFallbackHandler d)"
    and "getMultiSendContractInstance w chainId = eth_Contract w MultiSendDeploymentABI (MultiSend d)"
    and "getSignMessageLibAddress chainId = Inr (Some (SignMessageLib d))"
    and "getSignMessageLibContractInstance w chainId = eth_Contract w SignMessageLibABI (SignMessageLib d)"
  using complete_record [OF assms]
  by (simp_all add: lookup_defs member_of_supported [OF assms] falsy_Some)

text \<open>On any other key every lookup throws, before the constructor is reached.\<close>

lemma lookups_unsupported:
  assumes "map_of contracts chainId = None"
  shows "\<exists>e. getGnosisSafeContractInstance w chainId = Inl e"
    and "\<exists>e. getProxyFactoryContractInstance w chainId = Inl e"
    and "\<exists>e. getFallbackHandlerContractInstance w chainId = Inl e"
    and "\<exists>e. getMultiSendContractInstance w chainId = Inl e"
    and "\<exists>e. getSignMessageLibAddress chainId = Inl e"
    and "\<exists>e. getSignMessageLibContractInstance w chainId = Inl e"
  using contracts_at_unsupported [OF assms]
  by (auto simp add: lookup_defs falsy_None)

text \<open>
  C2 (the code at chain id \<^verbatim>\<open>'1'\<close>, which is not a key of the table). Every lookup
  function throws there, but what it throws is the runtime's TypeError for reading a
  member of \<^verbatim>\<open>undefined\<close>: \<^verbatim>\<open>contracts[chainId]\<close> is dereferenced before the guard
  \<^verbatim>\<open>if (!contractAddress)\<close> is reached, so the error that names the missing contract
  and the requested chain is never raised for a chain that is absent from the table.
\<close>

theorem unsupported_chain_throws_TypeError:
  "getGnosisSafeContractInstance w ''1'' = Inl (read_of_undefined ''GnosisSafeL2'') \<and>
   getProxyFactoryContractInstance w ''1'' = Inl (read_of_undefined ''GnosisSafeProxyFactory'') \<and>
   getFallbackHandlerContractInstance w ''1'' = Inl (read_of_undefined ''CompatibilityFallbackHandler'') \<and>
   getMultiSendContractInstance w ''1'' = Inl (read_of_undefined ''MultiSend'') \<and>
   getSignMessageLibAddress ''1'' = Inl (read_of_undefined ''SignMessageLib'') \<and>
   getSignMessageLibContractInstance w ''1'' = Inl (read_of_undefined ''SignMessageLib'') \<and>
   read_of_undefined ''GnosisSafeL2'' \<noteq> Error (''GnosisSafe contract not found for chainId: '' @ ''1'')"
  by (simp add: lookup_defs contracts_at_def contracts_def Object_prototype_def
        read_of_undefined_def TypeError_def Error_def)

text \<open>
  C3: the keys of the table are the two supported chain identifiers, \<^verbatim>\<open>'57'\<close> and
  \<^verbatim>\<open>'5700'\<close>. Every key resolves to a complete record: its five addresses are all
  non-empty. On every key each lookup function gets past its guard with the address of
  its contract: the five that build a handle pass that address to the constructor, and
  \<^verbatim>\<open>getSignMessageLibAddress\<close> returns it.
\<close>

theorem supported_chain_lookups:
  assumes "chainId \<in> set (map fst contracts)"
  shows "set (map fst contracts) = {''57'', ''5700''} \<and>
         (\<exists>d. map_of contracts chainId = Some d \<and> contracts_at chainId = Deployment d \<and>
           MultiSend d \<noteq> [] \<and> CompatibilityFallbackHandler d \<noteq> [] \<and>
           GnosisSafeProxyFactory d \<noteq> [] \<and> GnosisSafeL2 d \<noteq> [] \<and> SignMessageLib d \<noteq> [] \<and>
           getMultiSendContractInstance w chainId = eth_Contract w MultiSendDeploymentABI (MultiSend d) \<and>
           getFallbackHandlerContractInstance w chainId =
             eth_Contract w FallBackHandlerABI (CompatibilityFallbackHandler d) \<and>
           getProxyFactoryContractInstance w chainId =
             eth_Contract w ProxyFactoryABI (GnosisSafeProxyFactory d) \<and>
           getGnosisSafeContractInstance w chainId = eth_Contract w GnosisSafeL2ABI (GnosisSafeL2 d) \<and>
           getSignMessageLibContractInstance w chainId =
             eth_Contract w SignMessageLibABI (SignMessageLib d) \<and>
           getSignMessageLibAddress chainId = Inr (Some (SignMessageLib d)))"
proof -
  have keys: "set (map fst contracts) = {''57'', ''5700''}"
    by (simp add: contracts_def)
  with assms have "map_of contracts chainId \<noteq> None"
    by (simp add: map_of_contracts_None)
  then obtain d where d: "map_of contracts chainId = Some d"
    by blast
  show ?thesis
    using keys d complete_record [OF d] contracts_at_supported [OF d] lookups_supported [OF d]
    by simp
qed

theorem supported_chain_lookups_witness:
  "''57'' \<in> set (map fst contracts) \<and>
   (\<exists>d. map_of contracts ''57'' = Some d \<and> SignMessageLib d \<noteq> [] \<and>
        getMultiSendContractInstance sample_web3 ''57'' =
          Inr \<lparr>jsonInterface = MultiSendDeploymentABI, options_address = MultiSend d\<rparr> \<and>
        getSignMessageLibAddress ''57'' = Inr (Some ''0x90305FB725E56e042E8f4078e85e02408cA5D4E0''))"
proof -
  have key: "''57'' \<in> set (map fst contracts)"
    by (simp add: contracts_def)
  from supported_chain_lookups [OF key, of sample_web3] key show ?thesis
    by (auto simp add: sample_web3_def contracts_def)
qed

text \<open>
  C9: \<^verbatim>\<open>getSignMessageLibAddress\<close> never returns \<^verbatim>\<open>undefined\<close>. On a chain
  identifier that is not a key of the table it throws; on a key it returns the
  SignMessageLib address recorded for that chain, which is not empty.
\<close>

theorem signMessageLibAddress_never_undefined:
  "getSignMessageLibAddress chainId \<noteq> Inr None \<and>
   (case map_of contracts chainId of
      None \<Rightarrow> \<exists>e. getSignMessageLibAddress chainId = Inl e
    | Some d \<Rightarrow> getSignMessageLibAddress chainId = Inr (Some (SignMessageLib d)) \<and> SignMessageLib d \<noteq> [])"
proof (cases "map_of contracts chainId")
  case None
  then show ?thesis using lookups_unsupported(5) [OF None] by auto
next
  case (Some d)
  then show ?thesis using lookups_supported(5) [OF Some] complete_record [OF Some] by simp
qed

section \<open>Resolving a deployment\<close>

text \<open>
  C4: \<^verbatim>\<open>getSafeContractDeployment\<close> asks the selected getter first for the requested
  version on the current network, then, if that finds nothing, for the requested version
  on any network, and, if that finds nothing either and the version satisfies
  \<^verbatim>\<open><1.0.0\<close>, for version \<^verbatim>\<open>1.0.0\<close>. It returns the first deployment found and
  makes no further lookup after it; when every lookup it makes finds nothing, it returns
  \<^verbatim>\<open>undefined\<close>.
\<close>

theorem deployment_resolution_order:
  "getSafeContractDeployment env safeVersion =
     (let g = (if l2 (getChainById env (getChainId env)) \<and> semverSatisfies env safeVersion ''>=1.3.0''
               then getSafeL2SingletonDeployment else getSafeSingletonDeployment);
          specific = \<lparr>version = safeVersion, network = Some (getChainId env)\<rparr>;
          generic = \<lparr>version = safeVersion, network = None\<rparr>;
          oldest = \<lparr>version = ''1.0.0'', network = None\<rparr>
      in case getDeployment env g specific of
           Some d \<Rightarrow> ([(g, specific)], Some d)
         | None \<Rightarrow>
             (case getDeployment env g generic of
                Some d \<Rightarrow> ([(g, specific), (g, generic)], Some d)
              | None \<Rightarrow>
                  if semverSatisfies env safeVersion ''<1.0.0''
                  then ([(g, specific), (g, generic), (g, oldest)], getDeployment env g oldest)
                  else ([(g, specific), (g, generic)], None)))"
  by (simp add: getSafeContractDeployment_def call_def orElse_def Let_def split: option.splits)

text \<open>
  C5: every lookup \<^verbatim>\<open>getSafeContractDeployment\<close> makes goes to one getter, and it makes
  at least one. That getter is \<^verbatim>\<open>getSafeL2SingletonDeployment\<close> when the current
  chain's configuration is marked \<^verbatim>\<open>l2\<close> and the requested version satisfies
  \<^verbatim>\<open>>=1.3.0\<close>, and \<^verbatim>\<open>getSafeSingletonDeployment\<close> in every other case.
\<close>

theorem getter_selection:
  "set (map fst (fst (getSafeContractDeployment env safeVersion))) =
     {if l2 (getChainById env (getChainId env)) \<and> semverSatisfies env safeVersion ''>=1.3.0''
      then getSafeL2SingletonDeployment else getSafeSingletonDeployment}"
  by (auto simp add: getSafeContractDeployment_def call_def orElse_def Let_def split: option.splits)

text \<open>The sample environment: version 1.3.0 is found by the L2 getter at the second
  lookup; version 0.9.0 goes to the legacy getter, which is asked three times.\<close>

lemma sample_resolution:
  "getSafeContractDeployment sample_env ''1.3.0'' =
     ([(getSafeL2SingletonDeployment, \<lparr>version = ''1.3.0'', network = Some ''57''\<rparr>),
       (getSafeL2SingletonDeployment, \<lparr>version = ''1.3.0'', network = None\<rparr>)],
      Some sample_deployment)"
  "getSafeContractDeployment sample_env ''0.9.0'' =
     ([(getSafeSingletonDeployment, \<lparr>version = ''0.9.0'', network = Some ''57''\<rparr>),
       (getSafeSingletonDeployment, \<lparr>version = ''0.9.0'', network = None\<rparr>),
       (getSafeSingletonDeployment, \<lparr>version = ''1.0.0'', network = None\<rparr>)],
      None)"
  by (simp_all add: getSafeContractDeployment_def call_def orElse_def sample_env_def)

section \<open>The master copy of a proxy\<close>

text \<open>
  C6, as the code has it: when \<^verbatim>\<open>getSafeInfo\<close> rejects with an exception whose
  \<^verbatim>\<open>log\<close> method returns, \<^verbatim>\<open>getMasterCopyAddressFromProxyAddress\<close> catches the
  exception, logs it and resolves to \<^verbatim>\<open>undefined\<close>; the failure does not reach the
  caller.
\<close>

theorem caught_and_logged:
  assumes "getSafeInfo env proxyAddress = Inl e" and "log e = LogReturns"
  shows "getMasterCopyAddressFromProxyAddress env proxyAddress = ([logged e], Inr None)"
  using assms by (simp add: getMasterCopyAddressFromProxyAddress_def)

theorem caught_and_logged_witness:
  "getSafeInfo sample_env ''0xA1'' = Inl (Exception ''CodedException'' ''Code 605'' LogReturns) \<and>
   log (Exception ''CodedException'' ''Code 605'' LogReturns) = LogReturns \<and>
   getMasterCopyAddressFromProxyAddress sample_env ''0xA1'' =
     ([logged (Exception ''CodedException'' ''Code 605'' LogReturns)], Inr None)"
  using caught_and_logged [of sample_env "''0xA1''" "Exception ''CodedException'' ''Code 605'' LogReturns"]
  by (simp add: sample_env_def)

text \<open>
  C6 as the claim states it fails: in the sample environment \<^verbatim>\<open>getSafeInfo\<close> rejects,
  and the function resolves, to \<^verbatim>\<open>undefined\<close>.
\<close>

theorem failure_not_surfaced:
  "getSafeInfo sample_env ''0xA1'' = Inl (Exception ''CodedException'' ''Code 605'' LogReturns) \<and>
   snd (getMasterCopyAddressFromProxyAddress sample_env ''0xA1'') = Inr None"
  by (simp add: getMasterCopyAddressFromProxyAddress_def sample_env_def)

text \<open>
  C10: when \<^verbatim>\<open>getSafeInfo\<close> rejects with an exception that has no \<^verbatim>\<open>log\<close> method,
  the handler itself throws: the function logs nothing and rejects with the TypeError of
  the call \<^verbatim>\<open>e.log()\<close>, instead of resolving to \<^verbatim>\<open>undefined\<close>. An ordinary
  \<^verbatim>\<open>Error\<close> is such an exception.
\<close>

theorem handler_throws_without_log:
  assumes "getSafeInfo env proxyAddress = Inl e" and "log e = NoLogMethod"
  shows "getMasterCopyAddressFromProxyAddress env proxyAddress =
           ([], Inl (TypeError ''e.log is not a function'')) \<and>
         snd (getMasterCopyAddressFromProxyAddress env proxyAddress) \<noteq> Inr None"
  using assms by (simp add: getMasterCopyAddressFromProxyAddress_def)

theorem handler_throws_without_log_witness:
  "getSafeInfo (sample_env\<lparr>getSafeInfo := (\<lambda>a. Inl (Error ''Network Error''))\<rparr>) ''0xA1'' =
     Inl (Error ''Network Error'') \<and>
   log (Error ''Network Error'') = NoLogMethod \<and>
   getMasterCopyAddressFromProxyAddress
     (sample_env\<lparr>getSafeInfo := (\<lambda>a. Inl (Error ''Network Error''))\<rparr>) ''0xA1'' =
     ([], Inl (TypeError ''e.log is not a function''))"
  using handler_throws_without_log
          [of "sample_env\<lparr>getSafeInfo := (\<lambda>a. Inl (Error ''Network Error''))\<rparr>" "''0xA1''"
              "Error ''Network Error''"]
  by (simp add: Error_def)

section \<open>The cached handles\<close>

text \<open>When the selected chain is not a key of the table, the first lookup throws and
  nothing has been assigned.\<close>

lemma instantiate_unsupported:
  assumes "map_of contracts (getChainId env) = None"
  shows "\<exists>e. instantiateSafeContracts env s = (s, Inl e)"
  using lookups_unsupported(2) [OF assms, of "getWeb3 env"]
  by (auto simp add: instantiateSafeContracts_def)

text \<open>When it is a key, only the constructor can stop the four assignments.\<close>

lemma instantiate_supported:
  assumes d: "map_of contracts (getChainId env) = Some d"
  shows "instantiateSafeContracts env s =
     (case eth_Contract (getWeb3 env) ProxyFactoryABI (GnosisSafeProxyFactory d) of
        Inl e \<Rightarrow> (s, Inl e)
      | Inr pf \<Rightarrow>
          (case eth_Contract (getWeb3 env) GnosisSafeL2ABI (GnosisSafeL2 d) of
             Inl e \<Rightarrow> (s\<lparr>proxyFactoryMaster := Some pf\<rparr>, Inl e)
           | Inr sm \<Rightarrow>
               (case eth_Contract (getWeb3 env) FallBackHandlerABI (CompatibilityFallbackHandler d) of
                  Inl e \<Rightarrow> (s\<lparr>proxyFactoryMaster := Some pf, safeMaster := Some sm\<rparr>, Inl e)
                | Inr fh \<Rightarrow>
                    (case eth_Contract (getWeb3 env) MultiSendDeploymentABI (MultiSend d) of
                       Inl e \<Rightarrow>
                         (s\<lparr>proxyFactoryMaster := Some pf, safeMaster := Some sm,
                            fallbackHandler := Some fh\<rparr>, Inl e)
                     | Inr ms \<Rightarrow>
                         (s\<lparr>proxyFactoryMaster := Some pf, safeMaster := Some sm,
                            fallbackHandler := Some fh, multiSend := Some ms\<rparr>, Inr ())))))"
  by (simp add: instantiateSafeContracts_def lookups_supported [OF d] Let_def split: sum.splits)

text \<open>\<^verbatim>\<open>getSafeMasterContract\<close> changes the handles exactly as
  \<^verbatim>\<open>instantiateSafeContracts\<close> does.\<close>

lemma getSafeMasterContract_state:
  "fst (getSafeMasterContract env s) = fst (instantiateSafeContracts env s)"
  by (simp add: getSafeMasterContract_def split: prod.splits sum.splits)

text \<open>The sample environment, run on the freshly loaded module.\<close>

lemma sample_instantiate:
  "instantiateSafeContracts sample_env (initial ()) = (sample_handles, Inr ())"
  by (simp add: instantiateSafeContracts_def sample_env_def sample_web3_def lookup_defs
        contracts_at_def contracts_def falsy_def initial_def sample_handles_def)

text \<open>
  C7, as the code has it: every call to \<^verbatim>\<open>instantiateSafeContracts\<close> that returns
  has overwritten all four cached handles with the instances web3 built from the
  addresses the table records for the currently selected chain, which is then a key of
  the table. The state after the call is the state before it with these four handles
  replaced: the rest of the state is untouched, and the handles cached before the call
  have no influence on the outcome (the last write wins).
\<close>

theorem instantiate_overwrites_all:
  assumes "instantiateSafeContracts env s = (s', Inr ())"
  shows "\<exists>d pf sm fh ms.
           map_of contracts (getChainId env) = Some d \<and>
           eth_Contract (getWeb3 env) ProxyFactoryABI (GnosisSafeProxyFactory d) = Inr pf \<and>
           eth_Contract (getWeb3 env) GnosisSafeL2ABI (GnosisSafeL2 d) = Inr sm \<and>
           eth_Contract (getWeb3 env) FallBackHandlerABI (CompatibilityFallbackHandler d) = Inr fh \<and>
           eth_Contract (getWeb3 env) MultiSendDeploymentABI (MultiSend d) = Inr ms \<and>
           s' = s\<lparr>proxyFactoryMaster := Some pf, safeMaster := Some sm,
                  fallbackHandler := Some fh, multiSend := Some ms\<rparr> \<and>
           handles.more s' = handles.more s \<and>
           (\<forall>s0. handles.more s0 = handles.more s \<longrightarrow> instantiateSafeContracts env s0 = (s', Inr ()))"
proof (cases "map_of contracts (getChainId env)")
  case None
  then show ?thesis using instantiate_unsupported [OF None, of s] assms by auto
next
  case (Some d)
  from assms show ?thesis
    unfolding instantiate_supported [OF Some]
    by (auto simp add: Some handles.equality split: sum.splits)
qed

theorem instantiate_overwrites_all_witness:
  "instantiateSafeContracts sample_env (initial ()) = (sample_handles, Inr ()) \<and>
   (\<exists>d sm. map_of contracts (getChainId sample_env) = Some d \<and>
      eth_Contract (getWeb3 sample_env) GnosisSafeL2ABI (GnosisSafeL2 d) = Inr sm \<and>
      safeMaster sample_handles = Some sm)"
proof -
  from instantiate_overwrites_all [OF sample_instantiate] obtain d pf sm fh ms where
    d: "map_of contracts (getChainId sample_env) = Some d" and
    sm: "eth_Contract (getWeb3 sample_env) GnosisSafeL2ABI (GnosisSafeL2 d) = Inr sm" and
    s': "sample_handles =
           (initial ())\<lparr>proxyFactoryMaster := Some pf, safeMaster := Some sm,
                         fallbackHandler := Some fh, multiSend := Some ms\<rparr>"
    by auto
  have "safeMaster sample_handles = Some sm"
    unfolding s' by simp
  with d sm sample_instantiate show ?thesis by blast
qed

text \<open>
  C7 as the claim states it fails: with chain \<^verbatim>\<open>'1'\<close> selected, which is not a key
  of the table, a call made right after the module is loaded throws at the first lookup
  and leaves all four handles unassigned.
\<close>

theorem not_overwritten_on_unsupported_chain:
  "instantiateSafeContracts (sample_env\<lparr>getChainId := ''1''\<rparr>) (initial ()) =
     (initial (), Inl (read_of_undefined ''GnosisSafeProxyFactory'')) \<and>
   proxyFactoryMaster (initial ()) = None \<and> safeMaster (initial ()) = None \<and>
   fallbackHandler (initial ()) = None \<and> multiSend (initial ()) = None"
  by (simp add: instantiateSafeContracts_def sample_env_def lookup_defs contracts_at_def
        contracts_def Object_prototype_def initial_def)

section \<open>Deploying a Safe\<close>

text \<open>A handle cached in \<open>safeMaster\<close> either was there before the call or is the one
  the current web3 instance built for the GnosisSafeL2 address of the selected chain.\<close>

lemma instantiate_safeMaster:
  assumes "safeMaster (fst (instantiateSafeContracts env s)) = Some sm"
  shows "safeMaster s = Some sm \<or>
         (\<exists>d. map_of contracts (getChainId env) = Some d \<and>
               eth_Contract (getWeb3 env) GnosisSafeL2ABI (GnosisSafeL2 d) = Inr sm)"
proof (cases "map_of contracts (getChainId env)")
  case None
  then show ?thesis using instantiate_unsupported [OF None, of s] assms by auto
next
  case (Some d)
  from assms show ?thesis
    unfolding instantiate_supported [OF Some]
    by (auto simp add: Some split: sum.splits)
qed

text \<open>After a call that returned, it is the latter.\<close>

lemma instantiate_returns_safeMaster:
  assumes "instantiateSafeContracts env s = (s', Inr ())"
  shows "\<exists>d sm. map_of contracts (getChainId env) = Some d \<and>
               eth_Contract (getWeb3 env) GnosisSafeL2ABI (GnosisSafeL2 d) = Inr sm \<and>
               safeMaster s' = Some sm"
proof (cases "map_of contracts (getChainId env)")
  case None
  then show ?thesis using instantiate_unsupported [OF None, of s] assms by auto
next
  case (Some d)
  from assms show ?thesis
    unfolding instantiate_supported [OF Some]
    by (auto simp add: Some split: sum.splits)
qed

text \<open>The two GnosisSafeL2 addresses of the table.\<close>

lemma GnosisSafeL2_of_table:
  "map_of contracts chainId = Some d \<Longrightarrow>
     GnosisSafeL2 d = ''0x7e1eaA0f4BBDD5501dAb7542B405Ab7fc343105F'' \<or>
     GnosisSafeL2 d = ''0x84C2130B89b080aC92b99d988480f63955BCA09A''"
  by (auto simp add: contracts_def split: if_splits)

lemma reports_addressD:
  assumes "reports_address w" and "map_of contracts chainId = Some d"
    and "eth_Contract w GnosisSafeL2ABI (GnosisSafeL2 d) = Inr sm"
  shows "options_address sm = GnosisSafeL2 d"
proof -
  from assms(2) have "(chainId, d) \<in> set contracts"
    by (rule map_of_SomeD)
  with assms(1) have
    "(case eth_Contract w GnosisSafeL2ABI (GnosisSafeL2 d) of
        Inl e \<Rightarrow> True | Inr c \<Rightarrow> options_address c = GnosisSafeL2 d)"
    unfolding reports_address_def list_all_iff by fastforce
  with assms(3) show ?thesis by simp
qed

text \<open>Hence, by induction on how the state was reached: while web3 reports the
  addresses it is given, the cached master copy sits at a GnosisSafeL2 address of the
  table.\<close>

lemma reachable_safeMaster:
  "reachable reports_address s \<Longrightarrow> safeMaster s = Some sm \<Longrightarrow>
     \<exists>chainId d. map_of contracts chainId = Some d \<and> options_address sm = GnosisSafeL2 d"
proof (induction rule: reachable.induct)
  case (at_load rest)
  then show ?case by (simp add: initial_def)
next
  case (instantiated s env)
  from instantiate_safeMaster [OF instantiated.prems] show ?case
  proof
    assume "safeMaster s = Some sm"
    then show ?thesis by (rule instantiated.IH)
  next
    assume "\<exists>d. map_of contracts (getChainId env) = Some d \<and>
                eth_Contract (getWeb3 env) GnosisSafeL2ABI (GnosisSafeL2 d) = Inr sm"
    then obtain d where d: "map_of contracts (getChainId env) = Some d"
      and sm: "eth_Contract (getWeb3 env) GnosisSafeL2ABI (GnosisSafeL2 d) = Inr sm"
      by blast
    from reports_addressD [OF instantiated.hyps(2) d sm] d show ?thesis
      by blast
  qed
qed

text \<open>A deployment transaction exists only when the three handles it reads are
  assigned and the setup call could be encoded.\<close>

lemma deployment_tx_shape:
  assumes "getSafeDeploymentTransaction env s safeAccounts numConfirmations safeCreationSalt = Inr tx"
  shows "\<exists>pf sm fh gnosisSafeData.
           proxyFactoryMaster s = Some pf \<and> safeMaster s = Some sm \<and> fallbackHandler s = Some fh \<and>
           encodeABI env (setup' sm safeAccounts numConfirmations (ZERO_ADDRESS env) (EMPTY_DATA env)
                            (options_address fh) (ZERO_ADDRESS env) 0 (ZERO_ADDRESS env))
             = Inr gnosisSafeData \<and>
           tx = createProxyWithNonce pf (options_address sm) gnosisSafeData safeCreationSalt"
  using assms
  by (auto simp add: getSafeDeploymentTransaction_def split: option.splits sum.splits)

text \<open>The sample environment.\<close>

lemma sample_web3_reports_address: "reports_address sample_web3"
  by (simp add: reports_address_def sample_web3_def contracts_def)

lemma reachable_sample_handles: "reachable reports_address sample_handles"
proof -
  have "reports_address (getWeb3 sample_env)"
    using sample_web3_reports_address by (simp add: sample_env_def)
  with reachable.at_load [of reports_address "()"]
  have "reachable reports_address (fst (instantiateSafeContracts sample_env (initial ())))"
    by (rule reachable.instantiated)
  then show ?thesis by (simp add: sample_instantiate)
qed

lemma sample_tx:
  "getSafeDeploymentTransaction sample_env sample_handles [''0xA1'', ''0xB2''] 2 7 =
   Inr (createProxyWithNonce
          \<lparr>jsonInterface = ProxyFactoryABI,
           options_address = ''0x111dE2B36368ddDA41CCB0E335eb4a59A3750A1B''\<rparr>
          ''0x7e1eaA0f4BBDD5501dAb7542B405Ab7fc343105F'' ''0x1688f0b9'' 7)"
  by (simp add: getSafeDeploymentTransaction_def sample_env_def sample_handles_def)

text \<open>
  C8: on a supported chain identifier \<^verbatim>\<open>getGnosisSafeContractInstance\<close> builds the
  master-copy handle from the GnosisSafeL2 interface and that chain's GnosisSafeL2
  address. Whether the chain is marked as an L2 network plays no part: replacing
  \<^verbatim>\<open>getChainById\<close> changes nothing in what \<^verbatim>\<open>instantiateSafeContracts\<close> does.
  Consequently a deployment transaction points at the L2 singleton:

  \<^item> after a call of \<^verbatim>\<open>instantiateSafeContracts\<close> that returned, every transaction
    \<^verbatim>\<open>getSafeDeploymentTransaction\<close> builds is a \<^verbatim>\<open>createProxyWithNonce\<close> call whose
    master copy is the \<^verbatim>\<open>options.address\<close> of the very handle that the current web3
    instance built for the GnosisSafeL2 address of the selected chain, and that address
    itself when the instance reports the addresses it is given;

  \<^item> in every state the module can reach with web3 instances that report the addresses
    they are given, every transaction \<^verbatim>\<open>getSafeDeploymentTransaction\<close> builds is a
    \<^verbatim>\<open>createProxyWithNonce\<close> call whose master copy is the GnosisSafeL2 address of a
    chain of the table, that is, one of the two GnosisSafeL2 addresses.
\<close>

theorem safe_master_is_L2_singleton:
  "(map_of contracts chainId = Some d \<longrightarrow>
      getGnosisSafeContractInstance w chainId = eth_Contract w GnosisSafeL2ABI (GnosisSafeL2 d)) \<and>
   instantiateSafeContracts (env\<lparr>getChainById := chainInfo\<rparr>) s = instantiateSafeContracts env s \<and>
   (instantiateSafeContracts env s = (s', Inr ()) \<longrightarrow>
    getSafeDeploymentTransaction env' s' safeAccounts numConfirmations safeCreationSalt = Inr tx \<longrightarrow>
      (\<exists>d' sm pf gnosisSafeData.
         map_of contracts (getChainId env) = Some d' \<and>
         eth_Contract (getWeb3 env) GnosisSafeL2ABI (GnosisSafeL2 d') = Inr sm \<and>
         tx = createProxyWithNonce pf (options_address sm) gnosisSafeData safeCreationSalt \<and>
         (reports_address (getWeb3 env) \<longrightarrow>
            tx = createProxyWithNonce pf (GnosisSafeL2 d') gnosisSafeData safeCreationSalt))) \<and>
   (reachable reports_address r \<longrightarrow>
    getSafeDeploymentTransaction env' r safeAccounts numConfirmations safeCreationSalt = Inr tx \<longrightarrow>
      (\<exists>c d' pf gnosisSafeData.
         map_of contracts c = Some d' \<and>
         tx = createProxyWithNonce pf (GnosisSafeL2 d') gnosisSafeData safeCreationSalt \<and>
         (GnosisSafeL2 d' = ''0x7e1eaA0f4BBDD5501dAb7542B405Ab7fc343105F'' \<or>
          GnosisSafeL2 d' = ''0x84C2130B89b080aC92b99d988480f63955BCA09A'')))"
proof (intro conjI impI)
  assume "map_of contracts chainId = Some d"
  then show "getGnosisSafeContractInstance w chainId = eth_Contract w GnosisSafeL2ABI (GnosisSafeL2 d)"
    by (rule lookups_supported(1))
next
  show "instantiateSafeContracts (env\<lparr>getChainById := chainInfo\<rparr>) s = instantiateSafeContracts env s"
    by (simp add: instantiateSafeContracts_def)
next
  assume run: "instantiateSafeContracts env s = (s', Inr ())"
    and tx: "getSafeDeploymentTransaction env' s' safeAccounts numConfirmations safeCreationSalt = Inr tx"
  from instantiate_returns_safeMaster [OF run] obtain d' sm where
    d': "map_of contracts (getChainId env) = Some d'" and
    built: "eth_Contract (getWeb3 env) GnosisSafeL2ABI (GnosisSafeL2 d') = Inr sm" and
    sm: "safeMaster s' = Some sm"
    by blast
  from deployment_tx_shape [OF tx] sm obtain pf gnosisSafeData where
    shape: "tx = createProxyWithNonce pf (options_address sm) gnosisSafeData safeCreationSalt"
    by auto
  have "reports_address (getWeb3 env) \<longrightarrow>
          tx = createProxyWithNonce pf (GnosisSafeL2 d') gnosisSafeData safeCreationSalt"
    using reports_addressD [OF _ d' built] shape by simp
  with d' built shape show "\<exists>d' sm pf gnosisSafeData.
         map_of contracts (getChainId env) = Some d' \<and>
         eth_Contract (getWeb3 env) GnosisSafeL2ABI (GnosisSafeL2 d') = Inr sm \<and>
         tx = createProxyWithNonce pf (options_address sm) gnosisSafeData safeCreationSalt \<and>
         (reports_address (getWeb3 env) \<longrightarrow>
            tx = createProxyWithNonce pf (GnosisSafeL2 d') gnosisSafeData safeCreationSalt)"
    by (intro exI conjI)
next
  assume r: "reachable reports_address r"
    and tx: "getSafeDeploymentTransaction env' r safeAccounts numConfirmations safeCreationSalt = Inr tx"
  from deployment_tx_shape [OF tx] obtain pf sm gnosisSafeData where
    sm: "safeMaster r = Some sm" and
    shape: "tx = createProxyWithNonce pf (options_address sm) gnosisSafeData safeCreationSalt"
    by blast
  from reachable_safeMaster [OF r sm] obtain c d' where
    d': "map_of contracts c = Some d'" and addr: "options_address sm = GnosisSafeL2 d'"
    by blast
  from shape addr have
    "tx = createProxyWithNonce pf (GnosisSafeL2 d') gnosisSafeData safeCreationSalt"
    by simp
  with d' GnosisSafeL2_of_table [OF d'] show "\<exists>c d' pf gnosisSafeData.
         map_of contracts c = Some d' \<and>
         tx = createProxyWithNonce pf (GnosisSafeL2 d') gnosisSafeData safeCreationSalt \<and>
         (GnosisSafeL2 d' = ''0x7e1eaA0f4BBDD5501dAb7542B405Ab7fc343105F'' \<or>
          GnosisSafeL2 d' = ''0x84C2130B89b080aC92b99d988480f63955BCA09A'')"
    by (intro exI conjI)
qed

theorem safe_master_is_L2_singleton_witness:
  "map_of contracts ''57'' \<noteq> None \<and>
   getGnosisSafeContractInstance sample_web3 ''57'' =
     Inr \<lparr>jsonInterface = GnosisSafeL2ABI,
          options_address = ''0x7e1eaA0f4BBDD5501dAb7542B405Ab7fc343105F''\<rparr> \<and>
   instantiateSafeContracts sample_env (initial ()) = (sample_handles, Inr ()) \<and>
   reports_address (getWeb3 sample_env) \<and>
   reachable reports_address sample_handles \<and>
   getSafeDeploymentTransaction sample_env sample_handles [''0xA1'', ''0xB2''] 2 7 =
     Inr (createProxyWithNonce
            \<lparr>jsonInterface = ProxyFactoryABI,
             options_address = ''0x111dE2B36368ddDA41CCB0E335eb4a59A3750A1B''\<rparr>
            ''0x7e1eaA0f4BBDD5501dAb7542B405Ab7fc343105F'' ''0x1688f0b9'' 7) \<and>
   (\<exists>d'. map_of contracts (getChainId sample_env) = Some d' \<and>
         GnosisSafeL2 d' = ''0x7e1eaA0f4BBDD5501dAb7542B405Ab7fc343105F'') \<and>
   (\<exists>c d'. map_of contracts c = Some d' \<and>
         GnosisSafeL2 d' = ''0x7e1eaA0f4BBDD5501dAb7542B405Ab7fc343105F'')"
proof -
  obtain d where d: "map_of contracts ''57'' = Some d"
    by (simp add: contracts_def)
  have rep: "reports_address (getWeb3 sample_env)"
    using sample_web3_reports_address by (simp add: sample_env_def)
  note inst = safe_master_is_L2_singleton
    [where chainId = "''57''" and d = d and w = sample_web3
       and env = sample_env and chainInfo = "getChainById sample_env"
       and s = "initial ()" and s' = sample_handles and env' = sample_env and r = sample_handles
       and safeAccounts = "[''0xA1'', ''0xB2'']" and numConfirmations = 2 and safeCreationSalt = 7
       and tx = "createProxyWithNonce
                   \<lparr>jsonInterface = ProxyFactoryABI,
                    options_address = ''0x111dE2B36368ddDA41CCB0E335eb4a59A3750A1B''\<rparr>
                   ''0x7e1eaA0f4BBDD5501dAb7542B405Ab7fc343105F'' ''0x1688f0b9'' 7"]
  have a: "getGnosisSafeContractInstance sample_web3 ''57'' =
      eth_Contract sample_web3 GnosisSafeL2ABI (GnosisSafeL2 d)"
    using inst [THEN conjunct1] d by (rule mp)
  have a': "getGnosisSafeContractInstance sample_web3 ''57'' =
     Inr \<lparr>jsonInterface = GnosisSafeL2ABI,
          options_address = ''0x7e1eaA0f4BBDD5501dAb7542B405Ab7fc343105F''\<rparr>"
    using d unfolding a by (auto simp add: contracts_def sample_web3_def)
  have d0: "map_of contracts ''57'' \<noteq> None" using d by simp
  note current = inst [THEN conjunct2, THEN conjunct2, THEN conjunct1, THEN mp,
                       OF sample_instantiate, THEN mp, OF sample_tx]
  have c: "\<exists>d'. map_of contracts (getChainId sample_env) = Some d' \<and>
         GnosisSafeL2 d' = ''0x7e1eaA0f4BBDD5501dAb7542B405Ab7fc343105F''"
    using current rep by (elim exE conjE) (rule exI, simp)
  note always = inst [THEN conjunct2, THEN conjunct2, THEN conjunct2, THEN mp,
                      OF reachable_sample_handles, THEN mp, OF sample_tx]
  have e: "\<exists>c d'. map_of contracts c = Some d' \<and>
         GnosisSafeL2 d' = ''0x7e1eaA0f4BBDD5501dAb7542B405Ab7fc343105F''"
    using always by (elim exE conjE) (intro exI, simp)
  show ?thesis
    by (intro conjI d0 a' sample_instantiate rep reachable_sample_handles sample_tx c e)
qed

text \<open>
  C1: \<^verbatim>\<open>estimateGasForDeployingSafe\<close> resolves to a value exactly when the deployment
  transaction could be built and encoded and \<^verbatim>\<open>calculateGasOf\<close>, called with the
  encoded data, the user's account as sender and the proxy factory's address as
  recipient, resolved to a raw estimate; the value is then 2 times that raw estimate,
  whatever the owners, the number of confirmations, the user's account and the salt are.
\<close>

theorem gas_estimate_doubles:
  "(estimateGasForDeployingSafe env s safeAccounts numConfirmations userAccount safeCreationSalt = Inr gas)
   \<longleftrightarrow>
   (\<exists>tx proxyFactoryData pf raw.
      getSafeDeploymentTransaction env s safeAccounts numConfirmations safeCreationSalt = Inr tx \<and>
      encodeABI env tx = Inr proxyFactoryData \<and>
      proxyFactoryMaster s = Some pf \<and>
      calculateGasOf env \<lparr>data = proxyFactoryData, from' = userAccount, to = options_address pf\<rparr>
        = Inr raw \<and>
      gas = 2 * raw)"
  by (auto simp add: estimateGasForDeployingSafe_def split: sum.splits option.splits)

theorem gas_estimate_doubles_witness:
  "calculateGasOf sample_env
     \<lparr>data = ''0x1688f0b9'', from' = ''0xC3'',
      to = ''0x111dE2B36368ddDA41CCB0E335eb4a59A3750A1B''\<rparr> = Inr 100000 \<and>
   estimateGasForDeployingSafe sample_env sample_handles [''0xA1'', ''0xB2''] 2 ''0xC3'' 7 = Inr 200000"
proof -
  have raw: "calculateGasOf sample_env
     \<lparr>data = ''0x1688f0b9'', from' = ''0xC3'',
      to = ''0x111dE2B36368ddDA41CCB0E335eb4a59A3750A1B''\<rparr> = Inr 100000"
    by (simp add: sample_env_def)
  have enc: "encodeABI sample_env
     (createProxyWithNonce
          \<lparr>jsonInterface = ProxyFactoryABI,
           options_address = ''0x111dE2B36368ddDA41CCB0E335eb4a59A3750A1B''\<rparr>
          ''0x7e1eaA0f4BBDD5501dAb7542B405Ab7fc343105F'' ''0x1688f0b9'' 7) = Inr ''0x1688f0b9''"
    by (simp add: sample_env_def)
  have pf: "proxyFactoryMaster sample_handles =
     Some \<lparr>jsonInterface = ProxyFactoryABI,
           options_address = ''0x111dE2B36368ddDA41CCB0E335eb4a59A3750A1B''\<rparr>"
    by (simp add: sample_handles_def)
  have "estimateGasForDeployingSafe sample_env sample_handles [''0xA1'', ''0xB2''] 2 ''0xC3'' 7 =
          Inr 200000"
    unfolding gas_estimate_doubles
    using sample_tx enc pf raw by simp
  with raw show ?thesis by simp
qed

end
